theory Spec2Isabelle
  imports Complex_Main
begin

section \<open>JavaScript values and objects\<close>

text \<open>
  The file \<^verbatim>\<open>styles/src/theme/syntax.ts\<close> builds plain JavaScript objects and hands them
  to a generic merge, so the embedding works on JavaScript values. An object is the list of
  its own properties in property order; \<open>map_of\<close> reads a property (\<open>None\<close>: the object has
  no such property) and \<open>assign\<close> is the assignment \<^verbatim>\<open>ob[key] = value\<close>.
\<close>

datatype jsval =
    JUndefined
  | JNull
  | JBool bool
  | JNum real
  | JStr string
  | JArr "jsval list"
  | JObj "(string \<times> jsval) list"

type_synonym obj = "(string \<times> jsval) list"

definition Object_keys :: "obj \<Rightarrow> string list" where
  "Object_keys ob = map fst ob"

fun assign :: "string \<Rightarrow> jsval \<Rightarrow> obj \<Rightarrow> obj" where
  "assign key v [] = [(key, v)]"
| "assign key v ((k, w) # ob) = (if k = key then (key, v) # ob else (k, w) # assign key v ob)"

text \<open>
  An object literal \<^verbatim>\<open>{ ...spread, k1: v1, k2: v2 }\<close>: the properties of \<open>spread\<close> are
  copied, then each listed property is assigned in turn, replacing a property of the same
  name as a whole.
\<close>

definition object_literal :: "obj \<Rightarrow> (string \<times> jsval) list \<Rightarrow> obj" where
  "object_literal spread props = fold (\<lambda>(key, v) ob. assign key v ob) props spread"

text \<open>
  What a sequence of assignments \<^verbatim>\<open>ob[key] = v\<close> leaves under the name \<open>k\<close>, where
  \<open>r\<close> was there before: the last value assigned to \<open>k\<close>.
\<close>

fun last_assigned :: "(string \<times> jsval) list \<Rightarrow> string \<Rightarrow> jsval option \<Rightarrow> jsval option" where
  "last_assigned [] k r = r"
| "last_assigned ((key, v) # props) k r =
     last_assigned props k (if key = k then Some v else r)"

text \<open>The attribute \<open>a\<close> of the category \<open>c\<close> of a profile: \<^verbatim>\<open>profile[c][a]\<close>.\<close>

definition attr :: "obj \<Rightarrow> string \<Rightarrow> string \<Rightarrow> jsval option" where
  "attr profile c a =
     (case map_of profile c of Some (JObj style) \<Rightarrow> map_of style a | _ \<Rightarrow> None)"

section \<open>The interface \<open>Syntax\<close>\<close>

text \<open>
  The keys of the interface \<open>Syntax\<close> (lines 13 to 115), in declaration order: those
  declared without \<^verbatim>\<open>?\<close> are required, those declared with \<^verbatim>\<open>?\<close> are optional.
\<close>

definition Syntax_required :: "string list" where
  "Syntax_required =
    [''comment'', ''comment.doc'', ''primary'', ''predictive'',
     ''emphasis'', ''emphasis.strong'', ''title'', ''link_uri'', ''link_text'', ''text.literal'',
     ''punctuation'', ''punctuation.bracket'', ''punctuation.delimiter'',
     ''punctuation.special'', ''punctuation.list_marker'',
     ''string'', ''string.special'',
     ''constructor'', ''variant'', ''type'',
     ''variable'', ''label'', ''tag'', ''attribute'', ''property'', ''constant'', ''keyword'',
     ''enum'', ''operator'', ''number'', ''boolean'',
     ''function'',
     ''preproc'', ''embedded'']"

definition Syntax_optional :: "string list" where
  "Syntax_optional =
    [''string.special.symbol'', ''string.escape'', ''string.regex'',
     ''type.builtin'', ''variable.special'', ''constant.builtin'',
     ''function.builtin'', ''function.definition'', ''function.special.definition'',
     ''function.method'', ''function.method.builtin'']"

definition Syntax_keys :: "string list" where
  "Syntax_keys = Syntax_required @ Syntax_optional"

section \<open>The color scheme\<close>

text \<open>
  Modelled from the spec: the interface \<open>ColorScheme\<close> of \<^verbatim>\<open>./color_scheme\<close> is not
  part of the source file. A color scheme exposes the ramps neutral, blue, orange, green,
  cyan and yellow, each a function from a lightness scalar to a color, and an optional
  partial override object keyed by category. A ramp is modelled together with the
  conversion \<^verbatim>\<open>.hex()\<close> that the source applies to every sample: \<open>neutral r l\<close> is
  \<^verbatim>\<open>ramps.neutral(l).hex()\<close>. The lightness literals are passed on unchanged; no
  arithmetic is done on them.
\<close>

type_synonym scale = "real \<Rightarrow> string"

record ramp_set =
  neutral :: scale
  blue :: scale
  orange :: scale
  green :: scale
  cyan :: scale
  yellow :: scale

record color_scheme =
  ramps :: ramp_set
  syntax_override :: "obj option"

text \<open>
  The blend \<^verbatim>\<open>chroma.mix(c1, c2, f, mode).hex()\<close> of the library chroma-js is a parameter
  of the embedding: \<open>mix c1 c2 f mode\<close>, where \<open>f\<close> is the weight of the second color.
\<close>

type_synonym mix = "string \<Rightarrow> string \<Rightarrow> real \<Rightarrow> string \<Rightarrow> string"

text \<open>
  Modelled from the spec: the table \<open>font_weights\<close> of \<^verbatim>\<open>../common\<close> is not part of
  the source file. A font weight is an enumerated name, and \<^verbatim>\<open>font_weights.bold\<close> is the
  weight \<open>bold\<close>.
\<close>

definition font_weights_bold :: jsval where
  "font_weights_bold = JStr ''bold''"

section \<open>The default profile\<close>

definition default_syntax_highlight_style :: obj where
  "default_syntax_highlight_style =
    [(''weight'', JStr ''normal''), (''underline'', JBool False), (''italic'', JBool False)]"

text \<open>
  Lines 128 to 137. The loop runs over \<^verbatim>\<open>Object.keys({} as Syntax)\<close>: the type
  assertion is erased when the program runs, so the keys are those of the empty object.
\<close>

definition syntax_init :: obj where
  "syntax_init =
     fold (\<lambda>key ob. assign key (JObj (object_literal default_syntax_highlight_style [])) ob)
       (Object_keys []) []"

text \<open>Lines 141 to 148.\<close>

definition predictive :: "mix \<Rightarrow> color_scheme \<Rightarrow> string" where
  "predictive mx cs = mx (neutral (ramps cs) 0.4) (blue (ramps cs) 0.4) 0.45 ''lch''"

text \<open>Lines 150 to 168: the object \<open>color\<close>.\<close>

record palette =
  color_primary :: string
  color_comment :: string
  color_punctuation :: string
  color_predictive :: string
  color_emphasis :: string
  color_string :: string
  color_function :: string
  color_type :: string
  color_constructor :: string
  color_variant :: string
  color_property :: string
  color_enum :: string
  color_operator :: string
  color_number :: string
  color_boolean :: string
  color_constant :: string
  color_keyword :: string

definition color :: "mix \<Rightarrow> color_scheme \<Rightarrow> palette" where
  "color mx cs = \<lparr>
     color_primary = neutral (ramps cs) 1,
     color_comment = neutral (ramps cs) 0.71,
     color_punctuation = neutral (ramps cs) 0.86,
     color_predictive = predictive mx cs,
     color_emphasis = blue (ramps cs) 0.5,
     color_string = orange (ramps cs) 0.5,
     color_function = yellow (ramps cs) 0.5,
     color_type = cyan (ramps cs) 0.5,
     color_constructor = blue (ramps cs) 0.5,
     color_variant = blue (ramps cs) 0.5,
     color_property = blue (ramps cs) 0.5,
     color_enum = orange (ramps cs) 0.5,
     color_operator = orange (ramps cs) 0.5,
     color_number = green (ramps cs) 0.5,
     color_boolean = green (ramps cs) 0.5,
     color_constant = green (ramps cs) 0.5,
     color_keyword = blue (ramps cs) 0.5 \<rparr>"

text \<open>Lines 171 to 289: the properties listed in the literal \<open>default_syntax\<close>.\<close>

definition default_syntax_props :: "mix \<Rightarrow> color_scheme \<Rightarrow> (string \<times> jsval) list" where
  "default_syntax_props mx cs =
    [(''comment'', JObj [(''color'', JStr (color_comment (color mx cs)))]),
     (''comment.doc'', JObj [(''color'', JStr (color_comment (color mx cs)))]),
     (''primary'', JObj [(''color'', JStr (color_primary (color mx cs)))]),
     (''predictive'', JObj [(''color'', JStr (color_predictive (color mx cs))),
                            (''italic'', JBool True)]),
     (''emphasis'', JObj [(''color'', JStr (color_emphasis (color mx cs)))]),
     (''emphasis.strong'', JObj [(''color'', JStr (color_emphasis (color mx cs))),
                                 (''weight'', font_weights_bold)]),
     (''title'', JObj [(''color'', JStr (color_primary (color mx cs))),
                       (''weight'', font_weights_bold)]),
     (''link_uri'', JObj [(''color'', JStr (green (ramps cs) 0.5)),
                          (''underline'', JBool True)]),
     (''link_text'', JObj [(''color'', JStr (orange (ramps cs) 0.5)),
                           (''italic'', JBool True)]),
     (''text.literal'', JObj [(''color'', JStr (color_string (color mx cs)))]),
     (''punctuation'', JObj [(''color'', JStr (color_punctuation (color mx cs)))]),
     (''punctuation.bracket'', JObj [(''color'', JStr (color_punctuation (color mx cs)))]),
     (''punctuation.delimiter'', JObj [(''color'', JStr (color_punctuation (color mx cs)))]),
     (''punctuation.special'', JObj [(''color'', JStr (neutral (ramps cs) 0.86))]),
     (''punctuation.list_marker'', JObj [(''color'', JStr (color_punctuation (color mx cs)))]),
     (''string'', JObj [(''color'', JStr (color_string (color mx cs)))]),
     (''string.special'', JObj [(''color'', JStr (color_string (color mx cs)))]),
     (''string.special.symbol'', JObj [(''color'', JStr (color_string (color mx cs)))]),
     (''string.escape'', JObj [(''color'', JStr (color_comment (color mx cs)))]),
     (''string.regex'', JObj [(''color'', JStr (color_string (color mx cs)))]),
     (''constructor'', JObj [(''color'', JStr (blue (ramps cs) 0.5))]),
     (''variant'', JObj [(''color'', JStr (blue (ramps cs) 0.5))]),
     (''type'', JObj [(''color'', JStr (color_type (color mx cs)))]),
     (''variable'', JObj [(''color'', JStr (color_primary (color mx cs)))]),
     (''label'', JObj [(''color'', JStr (blue (ramps cs) 0.5))]),
     (''tag'', JObj [(''color'', JStr (blue (ramps cs) 0.5))]),
     (''attribute'', JObj [(''color'', JStr (blue (ramps cs) 0.5))]),
     (''property'', JObj [(''color'', JStr (blue (ramps cs) 0.5))]),
     (''constant'', JObj [(''color'', JStr (color_constant (color mx cs)))]),
     (''keyword'', JObj [(''color'', JStr (color_keyword (color mx cs)))]),
     (''enum'', JObj [(''color'', JStr (color_enum (color mx cs)))]),
     (''operator'', JObj [(''color'', JStr (color_operator (color mx cs)))]),
     (''number'', JObj [(''color'', JStr (color_number (color mx cs)))]),
     (''boolean'', JObj [(''color'', JStr (color_boolean (color mx cs)))]),
     (''function'', JObj [(''color'', JStr (color_function (color mx cs)))]),
     (''preproc'', JObj [(''color'', JStr (color_primary (color mx cs)))]),
     (''embedded'', JObj [(''color'', JStr (color_primary (color mx cs)))])]"

text \<open>Lines 125 to 292: \<^verbatim>\<open>{ ...syntax, comment: {...}, ... }\<close>.\<close>

definition build_default_syntax :: "mix \<Rightarrow> color_scheme \<Rightarrow> obj" where
  "build_default_syntax mx cs = object_literal syntax_init (default_syntax_props mx cs)"

section \<open>The override merge\<close>

text \<open>Lines 306 to 309: the option \<open>arrayMerge\<close> that \<open>merge_syntax\<close> passes.\<close>

definition arrayMerge :: "jsval list \<Rightarrow> jsval list \<Rightarrow> jsval list" where
  "arrayMerge destinationArray sourceArray = destinationArray @ sourceArray"

text \<open>
  Modelled from the spec: the deep-merge utility (the package \<open>deepmerge\<close> imported on
  line 1) is not part of the source file. It is the generic recursive merge of sections
  4.2 and 6 of the spec, over nested objects and lists. The values it descends into are the
  objects and the arrays.
\<close>

definition isMergeableObject :: "jsval \<Rightarrow> bool" where
  "isMergeableObject v = (case v of JArr _ \<Rightarrow> True | JObj _ \<Rightarrow> True | _ \<Rightarrow> False)"

text \<open>
  Modelled from the spec: \<open>deepmerge\<close> and its loop over the properties of the source,
  \<open>mergeObject\<close>, are not part of the source file. Each property of the source (the
  override) is assigned to a copy of the target (the default): where the target has the
  property and the source's value is an object or an array the merge descends, and otherwise
  the source's value replaces the target's. On two arrays the merge is the option
  \<open>arrayMerge\<close>; an array and an object do not merge, the source replaces the target.
  Properties of the target that the source lacks are kept, and properties that only the
  source has are added. The utility copies the values it keeps; a copy is the same value
  here, where nothing is mutated. Property names that a JavaScript object inherits (such
  as \<open>toString\<close>) are outside the model: the category and attribute names of
  \<open>Syntax\<close> are not inherited names, but for \<open>constructor\<close>, which the default
  profile has as a property of its own. \<open>merge_syntax\<close> calls the utility on two
  objects, and the merge descends only into objects and arrays, so the equations for a
  source that is neither are never used.
\<close>

function deepmerge :: "(jsval list \<Rightarrow> jsval list \<Rightarrow> jsval list) \<Rightarrow> jsval \<Rightarrow> jsval \<Rightarrow> jsval"
  and mergeObject :: "(jsval list \<Rightarrow> jsval list \<Rightarrow> jsval list) \<Rightarrow> jsval \<Rightarrow> obj \<Rightarrow> obj"
where
  "deepmerge am target (JArr ys) =
     (case target of JArr xs \<Rightarrow> JArr (am xs ys) | _ \<Rightarrow> JArr ys)"
| "deepmerge am target (JObj source) =
     (case target of JArr xs \<Rightarrow> JObj source | _ \<Rightarrow> JObj (mergeObject am target source))"
| "deepmerge am target JUndefined = JUndefined"
| "deepmerge am target JNull = JNull"
| "deepmerge am target (JBool b) = JBool b"
| "deepmerge am target (JNum n) = JNum n"
| "deepmerge am target (JStr s) = JStr s"
| "mergeObject am target source =
     fold (\<lambda>key destination.
             case map_of source key of
               None \<Rightarrow> destination
             | Some v \<Rightarrow>
                 assign key
                   (case (case target of JObj t \<Rightarrow> map_of t key | _ \<Rightarrow> None) of
                      Some tv \<Rightarrow> if isMergeableObject v then deepmerge am tv v else v
                    | None \<Rightarrow> v)
                   destination)
       (Object_keys source)
       (case target of JObj t \<Rightarrow> t | _ \<Rightarrow> [])"
  by pat_completeness auto

termination deepmerge
proof -
  have sz: "size v < size_list (size_prod (\<lambda>x. 0) size) s"
    if "map_of s key = Some v" for s :: obj and key v
    using that by (induction s) (auto split: if_splits)
  show ?thesis
    by (relation "measure (\<lambda>x. case x of
            Inl (am, t, s) \<Rightarrow> size s
          | Inr (am, t, s) \<Rightarrow> size_list (size_prod (\<lambda>x. 0) size) s)")
       (auto dest: sz)
qed

declare mergeObject.simps [simp del]

text \<open>The properties of a value that is an object.\<close>

fun props_of :: "jsval \<Rightarrow> obj" where
  "props_of (JObj ob) = ob"
| "props_of _ = []"

text \<open>
  Lines 294 to 312. The field \<open>syntax\<close> of the scheme is an object or is absent, so
  \<^verbatim>\<open>!color_scheme.syntax\<close> holds exactly when it is absent.
\<close>

definition merge_syntax :: "obj \<Rightarrow> color_scheme \<Rightarrow> obj" where
  "merge_syntax default_syntax cs =
     (case syntax_override cs of
        None \<Rightarrow> default_syntax
      | Some ov \<Rightarrow> props_of (deepmerge arrayMerge (JObj default_syntax) (JObj ov)))"

text \<open>Lines 314 to 320.\<close>

definition build_syntax :: "mix \<Rightarrow> color_scheme \<Rightarrow> obj" where
  "build_syntax mx cs = merge_syntax (build_default_syntax mx cs) cs"

section \<open>Properties of profiles and schemes\<close>

text \<open>The category \<open>c\<close> of a profile has a color, and the color is a non-empty string.\<close>

definition has_color :: "obj \<Rightarrow> string \<Rightarrow> bool" where
  "has_color profile c =
     (case attr profile c ''color'' of Some (JStr x) \<Rightarrow> x \<noteq> [] | _ \<Rightarrow> False)"

text \<open>
  A valid color scheme: every ramp yields a non-empty hex string at every lightness
  between 0 and 1, and so does the blend of two such strings.
\<close>

definition valid_color_scheme :: "mix \<Rightarrow> color_scheme \<Rightarrow> bool" where
  "valid_color_scheme mx cs \<longleftrightarrow>
     (\<forall>l. 0 \<le> l \<and> l \<le> 1 \<longrightarrow>
        neutral (ramps cs) l \<noteq> [] \<and> blue (ramps cs) l \<noteq> [] \<and> orange (ramps cs) l \<noteq> [] \<and>
        green (ramps cs) l \<noteq> [] \<and> cyan (ramps cs) l \<noteq> [] \<and> yellow (ramps cs) l \<noteq> []) \<and>
     (\<forall>c1 c2 f mode. c1 \<noteq> [] \<and> c2 \<noteq> [] \<longrightarrow> mx c1 c2 f mode \<noteq> [])"

text \<open>
  A value that an override may give a category without taking its color away: a style
  object whose color, where it has one, is a non-empty string.
\<close>

definition keeps_color :: "jsval \<Rightarrow> bool" where
  "keeps_color v =
     (case v of
        JObj style \<Rightarrow>
          (case map_of style ''color'' of
             None \<Rightarrow> True
           | Some (JStr x) \<Rightarrow> x \<noteq> []
           | Some _ \<Rightarrow> False)
      | _ \<Rightarrow> False)"

definition override_keeps_colors :: "color_scheme \<Rightarrow> bool" where
  "override_keeps_colors cs =
     (case syntax_override cs of
        None \<Rightarrow> True
      | Some ov \<Rightarrow>
          list_all (\<lambda>c. case map_of ov c of None \<Rightarrow> True | Some v \<Rightarrow> keeps_color v)
            Syntax_required)"

text \<open>
  The optional categories of \<open>Syntax\<close> that the literal \<open>default_syntax\<close> does not
  list.
\<close>

definition optional_without_default :: "string list" where
  "optional_without_default =
    [''function.definition'', ''function.method'', ''function.builtin'',
     ''function.special.definition'', ''function.method.builtin'',
     ''constant.builtin'', ''type.builtin'', ''variable.special'']"

text \<open>The override of the scheme has the category \<open>k\<close>.\<close>

definition override_supplies :: "color_scheme \<Rightarrow> string \<Rightarrow> bool" where
  "override_supplies cs k =
     (case syntax_override cs of None \<Rightarrow> False | Some ov \<Rightarrow> k \<in> set (Object_keys ov))"

text \<open>
  The property names that every JavaScript object inherits from \<open>Object.prototype\<close>;
  line 58 of the source notes one of them, \<open>constructor\<close>. The model of the merge does
  not say what the utility does with such a name where the target does not have it as a
  property of its own.
\<close>

definition Object_prototype_keys :: "string list" where
  "Object_prototype_keys =
    [''constructor'', ''__defineGetter__'', ''__defineSetter__'', ''hasOwnProperty'',
     ''__lookupGetter__'', ''__lookupSetter__'', ''isPrototypeOf'', ''propertyIsEnumerable'',
     ''toString'', ''valueOf'', ''__proto__'', ''toLocaleString'']"

text \<open>
  A value none of whose objects, nested objects included, has a property with an inherited
  name. The elements of an array are not looked into: \<open>arrayMerge\<close> keeps them as they
  are.
\<close>

fun own_names_only :: "jsval \<Rightarrow> bool" where
  "own_names_only (JObj ob) =
     list_all (\<lambda>(key, v). key \<notin> set Object_prototype_keys \<and> own_names_only v) ob"
| "own_names_only _ = True"

section \<open>A reference scheme\<close>

definition reference_ramps :: ramp_set where
  "reference_ramps = \<lparr>
     neutral = (\<lambda>l. if l = 1 then ''#FFFFFF'' else if l = 0.86 then ''#DBDBDB''
                     else if l = 0.71 then ''#B5B5B5'' else ''#666666''),
     blue = (\<lambda>l. if l = 0.5 then ''#3B82F6'' else ''#2563EB''),
     orange = (\<lambda>l. ''#F97316''),
     green = (\<lambda>l. ''#22C55E''),
     cyan = (\<lambda>l. ''#06B6D4''),
     yellow = (\<lambda>l. ''#EAB308'') \<rparr>"

text \<open>
  A blend function to run the reference scheme with. It stands in for the library's blend
  and returns one fixed color; it is not the library's arithmetic.
\<close>

definition reference_mix :: mix where
  "reference_mix c1 c2 f mode = ''#4A64A8''"

definition reference_scheme :: color_scheme where
  "reference_scheme = \<lparr> ramps = reference_ramps, syntax_override = None \<rparr>"

text \<open>The reference scheme with the override \<^verbatim>\<open>{ predictive: { color: "#FF0000" } }\<close>.\<close>

definition red_predictive_scheme :: color_scheme where
  "red_predictive_scheme =
     \<lparr> ramps = reference_ramps,
       syntax_override = Some [(''predictive'', JObj [(''color'', JStr ''#FF0000'')])] \<rparr>"

text \<open>The reference scheme with the override \<^verbatim>\<open>{ comment: { color: "" } }\<close>.\<close>

definition empty_color_scheme :: color_scheme where
  "empty_color_scheme =
     \<lparr> ramps = reference_ramps,
       syntax_override = Some [(''comment'', JObj [(''color'', JStr [])])] \<rparr>"

text \<open>The reference scheme with the override \<^verbatim>\<open>{ comment: { color: undefined } }\<close>.\<close>

definition undefined_color_scheme :: color_scheme where
  "undefined_color_scheme =
     \<lparr> ramps = reference_ramps,
       syntax_override = Some [(''comment'', JObj [(''color'', JUndefined)])] \<rparr>"

text \<open>The reference scheme with the override \<^verbatim>\<open>{ comment: { color: "#FF0000" } }\<close>.\<close>

definition red_comment_scheme :: color_scheme where
  "red_comment_scheme =
     \<lparr> ramps = reference_ramps,
       syntax_override = Some [(''comment'', JObj [(''color'', JStr ''#FF0000'')])] \<rparr>"

text \<open>The reference scheme with the override \<^verbatim>\<open>{ foo: { color: "#000000" } }\<close>.\<close>

definition unknown_key_scheme :: color_scheme where
  "unknown_key_scheme =
     \<lparr> ramps = reference_ramps,
       syntax_override = Some [(''foo'', JObj [(''color'', JStr ''#000000'')])] \<rparr>"

text \<open>The reference scheme with the override \<^verbatim>\<open>{ "function.method": { color: "#EAB308" } }\<close>.\<close>

definition method_scheme :: color_scheme where
  "method_scheme =
     \<lparr> ramps = reference_ramps,
       syntax_override = Some [(''function.method'', JObj [(''color'', JStr ''#EAB308'')])] \<rparr>"

text \<open>
  A profile and an override with a list-valued attribute:
  \<^verbatim>\<open>{ comment: { color: "#B5B5B5", features: ["a"] } }\<close> and
  \<^verbatim>\<open>{ comment: { features: ["b", "c"] } }\<close>.
\<close>

definition list_profile :: obj where
  "list_profile =
     [(''comment'', JObj [(''color'', JStr ''#B5B5B5''), (''features'', JArr [JStr ''a''])])]"

definition list_scheme :: color_scheme where
  "list_scheme =
     \<lparr> ramps = reference_ramps,
       syntax_override =
         Some [(''comment'', JObj [(''features'', JArr [JStr ''b'', JStr ''c''])])] \<rparr>"

section \<open>Reading assigned and merged objects\<close>

lemma map_of_assign:
  "map_of (assign key v ob) k = (if k = key then Some v else map_of ob k)"
  by (induction ob) auto

lemma syntax_init_empty: "syntax_init = []"
  by (simp add: syntax_init_def Object_keys_def)

lemma last_assigned_cong:
  "k = k' \<Longrightarrow> r = r' \<Longrightarrow> last_assigned props k r = last_assigned props k' r'"
  by simp

lemma map_of_object_literal:
  "map_of (object_literal spread props) k = last_assigned props k (map_of spread k)"
  unfolding object_literal_def
  by (induction props arbitrary: spread) (auto simp: map_of_assign)

lemma map_of_build_default_syntax:
  "map_of (build_default_syntax mx cs) k = last_assigned (default_syntax_props mx cs) k None"
  by (simp add: build_default_syntax_def map_of_object_literal syntax_init_empty)

lemma attr_build_default_syntax:
  "attr (build_default_syntax mx cs) c a =
     (case last_assigned (default_syntax_props mx cs) c None of
        Some (JObj style) \<Rightarrow> map_of style a
      | _ \<Rightarrow> None)"
  by (simp add: attr_def map_of_build_default_syntax)

lemma map_of_fold_assign:
  "map_of (fold (\<lambda>key destination.
                   case map_of source key of
                     None \<Rightarrow> destination
                   | Some v \<Rightarrow> assign key (f key v) destination) ks d) k =
   (case map_of source k of
      Some v \<Rightarrow> if k \<in> set ks then Some (f k v) else map_of d k
    | None \<Rightarrow> map_of d k)"
  by (induction ks arbitrary: d) (auto simp: map_of_assign split: option.splits)

lemma map_of_mergeObject:
  "map_of (mergeObject am target source) k =
     (case map_of source k of
        None \<Rightarrow> (case target of JObj t \<Rightarrow> map_of t k | _ \<Rightarrow> None)
      | Some v \<Rightarrow>
          Some (case (case target of JObj t \<Rightarrow> map_of t k | _ \<Rightarrow> None) of
                  Some tv \<Rightarrow> if isMergeableObject v then deepmerge am tv v else v
                | None \<Rightarrow> v))"
proof -
  have keys: "k \<in> set (Object_keys source)" if "map_of source k = Some v" for v
    using that by (auto simp: Object_keys_def dest: map_of_SomeD intro: rev_image_eqI)
  show ?thesis
    unfolding mergeObject.simps [of am target source]
    by (cases target) (auto simp: map_of_fold_assign keys split: option.splits)
qed

lemma map_of_merge_syntax:
  assumes "syntax_override cs = Some ov"
  shows "map_of (merge_syntax P cs) k =
     (case map_of ov k of
        None \<Rightarrow> map_of P k
      | Some v \<Rightarrow>
          Some (case map_of P k of
                  Some tv \<Rightarrow> if isMergeableObject v then deepmerge arrayMerge tv v else v
                | None \<Rightarrow> v))"
  using assms by (simp add: merge_syntax_def map_of_mergeObject split: option.splits)

section \<open>Colors of the default profile\<close>

lemma map_of_default_comment:
  "map_of (build_default_syntax mx cs) ''comment'' =
     Some (JObj [(''color'', JStr (neutral (ramps cs) 0.71))])"
  unfolding map_of_build_default_syntax default_syntax_props_def
  by (simp cong: last_assigned_cong add: color_def)

text \<open>
  Lines 141 to 148 and 182 to 185: the color of predictive is what the library's blend
  returns for neutral at 0.4, blue at 0.4, the weight 0.45 of the second color and the mode
  \<open>lch\<close>. What the blend computes is floating-point arithmetic of the library and is not
  modelled, so nothing is said here about which colors the result differs from.
\<close>

lemma predictive_color_blend_arguments:
  "predictive mx cs = mx (neutral (ramps cs) 0.4) (blue (ramps cs) 0.4) 0.45 ''lch'' \<and>
   attr (build_default_syntax mx cs) ''predictive'' ''color'' =
     Some (JStr (mx (neutral (ramps cs) 0.4) (blue (ramps cs) 0.4) 0.45 ''lch''))"
  unfolding attr_build_default_syntax default_syntax_props_def
  by (simp cong: last_assigned_cong add: color_def predictive_def)

lemma default_has_color:
  assumes "valid_color_scheme mx cs"
  shows "list_all (has_color (build_default_syntax mx cs)) Syntax_required"
proof -
  have ramp:
    "neutral (ramps cs) l \<noteq> []" "blue (ramps cs) l \<noteq> []" "orange (ramps cs) l \<noteq> []"
    "green (ramps cs) l \<noteq> []" "cyan (ramps cs) l \<noteq> []" "yellow (ramps cs) l \<noteq> []"
    if "0 \<le> l" "l \<le> 1" for l
    using assms that by (simp_all add: valid_color_scheme_def)
  have blend: "predictive mx cs \<noteq> []"
    using assms ramp [of "0.4"] by (simp add: valid_color_scheme_def predictive_def)
  show ?thesis
    unfolding Syntax_required_def has_color_def attr_build_default_syntax
      default_syntax_props_def
    by (simp cong: last_assigned_cong add: color_def ramp blend)
qed

lemma has_color_merge_syntax:
  assumes ov: "syntax_override cs = Some ov"
    and P: "has_color P c"
    and keeps: "case map_of ov c of None \<Rightarrow> True | Some v \<Rightarrow> keeps_color v"
  shows "has_color (merge_syntax P cs) c"
proof (cases "map_of ov c")
  case None
  with P show ?thesis
    by (simp add: has_color_def attr_def map_of_merge_syntax [OF ov])
next
  case (Some v)
  with keeps obtain style where v: "v = JObj style"
    by (auto simp: keeps_color_def split: jsval.splits)
  from P obtain dstyle x where d: "map_of P c = Some (JObj dstyle)"
    and x: "map_of dstyle ''color'' = Some (JStr x)" "x \<noteq> []"
    by (auto simp: has_color_def attr_def split: option.splits jsval.splits)
  have "attr (merge_syntax P cs) c ''color'' =
      (case map_of style ''color'' of
         None \<Rightarrow> Some (JStr x)
       | Some y \<Rightarrow> Some (if isMergeableObject y then deepmerge arrayMerge (JStr x) y else y))"
    using Some v d x
    by (simp add: attr_def map_of_merge_syntax [OF ov] isMergeableObject_def
        map_of_mergeObject split: option.splits)
  with keeps Some v x show ?thesis
    by (auto simp: has_color_def keeps_color_def isMergeableObject_def
        split: option.splits jsval.splits)
qed

lemma valid_reference:
  "valid_color_scheme reference_mix \<lparr> ramps = reference_ramps, syntax_override = ov \<rparr>"
  by (simp add: valid_color_scheme_def reference_ramps_def reference_mix_def)

section \<open>Keys of the default profile\<close>

lemma last_assigned_absent:
  "k \<notin> set (Object_keys props) \<Longrightarrow> last_assigned props k r = r"
  by (induction props arbitrary: r) (auto simp: Object_keys_def)

lemma Object_keys_default:
  "Object_keys (default_syntax_props mx cs) =
     [''comment'', ''comment.doc'', ''primary'', ''predictive'', ''emphasis'',
      ''emphasis.strong'', ''title'', ''link_uri'', ''link_text'', ''text.literal'',
      ''punctuation'', ''punctuation.bracket'', ''punctuation.delimiter'',
      ''punctuation.special'', ''punctuation.list_marker'', ''string'', ''string.special'',
      ''string.special.symbol'', ''string.escape'', ''string.regex'', ''constructor'',
      ''variant'', ''type'', ''variable'', ''label'', ''tag'', ''attribute'', ''property'',
      ''constant'', ''keyword'', ''enum'', ''operator'', ''number'', ''boolean'', ''function'',
      ''preproc'', ''embedded'']"
  by (simp add: Object_keys_def default_syntax_props_def)

lemma default_keys_known:
  "set (Object_keys (default_syntax_props mx cs)) \<subseteq> set Syntax_keys"
  unfolding Object_keys_default
  by (simp add: Syntax_keys_def Syntax_required_def Syntax_optional_def)

lemma default_unknown_key:
  "k \<notin> set Syntax_keys \<Longrightarrow> map_of (build_default_syntax mx cs) k = None"
  using default_keys_known [of mx cs]
  by (auto simp: map_of_build_default_syntax intro!: last_assigned_absent)

lemma default_optional_absent:
  "k \<in> set optional_without_default \<Longrightarrow> map_of (build_default_syntax mx cs) k = None"
  unfolding map_of_build_default_syntax
  by (rule last_assigned_absent, unfold Object_keys_default)
     (auto simp: optional_without_default_def)

lemma Object_keys_iff: "k \<in> set (Object_keys ob) \<longleftrightarrow> map_of ob k \<noteq> None"
  by (simp add: Object_keys_def map_of_eq_None_iff)

section \<open>Claims\<close>

subsection \<open>C1: required categories have a color\<close>

text \<open>
  As stated, claim C1 fails for the merged profile. The override
  \<^verbatim>\<open>{ comment: { color: "" } }\<close> replaces the color that the default profile gave the
  required category \<open>comment\<close> by the empty string, and the override
  \<^verbatim>\<open>{ comment: { color: undefined } }\<close> replaces it by \<open>undefined\<close>: in both merged
  profiles \<open>comment\<close> has no non-empty color.
\<close>

theorem build_syntax_empty_color_counterexample:
  "valid_color_scheme reference_mix empty_color_scheme \<and>
   ''comment'' \<in> set Syntax_required \<and>
   has_color (build_default_syntax reference_mix empty_color_scheme) ''comment'' \<and>
   \<not> has_color (build_syntax reference_mix empty_color_scheme) ''comment'' \<and>
   valid_color_scheme reference_mix undefined_color_scheme \<and>
   has_color (build_default_syntax reference_mix undefined_color_scheme) ''comment'' \<and>
   \<not> has_color (build_syntax reference_mix undefined_color_scheme) ''comment''"
proof -
  have "''comment'' \<in> set Syntax_required"
    by (simp add: Syntax_required_def)
  moreover have "has_color (build_default_syntax reference_mix cs) ''comment''"
    if "ramps cs = reference_ramps" for cs
    using that
    by (simp add: has_color_def attr_def map_of_default_comment reference_ramps_def)
  moreover have "attr (build_syntax reference_mix empty_color_scheme) ''comment'' ''color'' =
      Some (JStr [])"
    by (simp add: build_syntax_def attr_def map_of_default_comment map_of_mergeObject
        map_of_merge_syntax [of _ "[(''comment'', JObj [(''color'', JStr [])])]"]
        empty_color_scheme_def isMergeableObject_def)
  moreover have "attr (build_syntax reference_mix undefined_color_scheme) ''comment'' ''color'' =
      Some JUndefined"
    by (simp add: build_syntax_def attr_def map_of_default_comment map_of_mergeObject
        map_of_merge_syntax [of _ "[(''comment'', JObj [(''color'', JUndefined)])]"]
        undefined_color_scheme_def isMergeableObject_def)
  ultimately show ?thesis
    by (simp add: has_color_def empty_color_scheme_def undefined_color_scheme_def
        valid_reference)
qed

text \<open>
  Claim C1, amended. For every valid color scheme, the profile returned by
  \<open>build_default_syntax\<close> gives every required category a non-empty color; and the
  profile returned by \<open>build_syntax\<close> still does so whenever each required category that
  the override supplies is a style object whose color, if it has one, is a non-empty
  string.
\<close>

theorem required_categories_have_color:
  assumes "valid_color_scheme mx cs"
  shows "list_all (has_color (build_default_syntax mx cs)) Syntax_required \<and>
         (override_keeps_colors cs \<longrightarrow>
            list_all (has_color (build_syntax mx cs)) Syntax_required)"
proof (intro conjI impI)
  show d: "list_all (has_color (build_default_syntax mx cs)) Syntax_required"
    using assms by (rule default_has_color)
  assume keeps: "override_keeps_colors cs"
  show "list_all (has_color (build_syntax mx cs)) Syntax_required"
  proof (cases "syntax_override cs")
    case None
    with d show ?thesis by (simp add: build_syntax_def merge_syntax_def)
  next
    case (Some ov)
    have "has_color (build_syntax mx cs) c" if "c \<in> set Syntax_required" for c
      unfolding build_syntax_def
    proof (rule has_color_merge_syntax [OF Some])
      show "has_color (build_default_syntax mx cs) c"
        using d that by (simp add: list_all_iff)
      show "case map_of ov c of None \<Rightarrow> True | Some v \<Rightarrow> keeps_color v"
        using keeps that Some by (simp add: override_keeps_colors_def list_all_iff)
    qed
    then show ?thesis by (simp add: list_all_iff)
  qed
qed

text \<open>The reference scheme with the override \<^verbatim>\<open>{ comment: { color: "#FF0000" } }\<close>.\<close>

theorem required_categories_have_color_witness:
  "valid_color_scheme reference_mix red_comment_scheme \<and>
   override_keeps_colors red_comment_scheme \<and>
   list_all (has_color (build_default_syntax reference_mix red_comment_scheme))
     Syntax_required \<and>
   list_all (has_color (build_syntax reference_mix red_comment_scheme)) Syntax_required"
proof -
  have v: "valid_color_scheme reference_mix red_comment_scheme"
    by (simp add: red_comment_scheme_def valid_reference)
  have k: "override_keeps_colors red_comment_scheme"
    by (simp add: override_keeps_colors_def red_comment_scheme_def Syntax_required_def
        keeps_color_def)
  show ?thesis
    using v k required_categories_have_color [OF v] by simp
qed

subsection \<open>C2: attribute defaults\<close>

text \<open>
  Claim C2 fails on the code, for every color scheme. The loop that is to spread
  \<open>default_syntax_highlight_style\<close> to each style runs over the keys of an empty
  object and assigns nothing, so \<open>syntax_init\<close> is empty; and the literal
  \<open>default_syntax\<close> gives \<open>comment\<close>, \<open>string\<close> and \<open>keyword\<close> a color only. In the
  default profile their weight, underline and italic are absent, not \<open>normal\<close>, \<open>false\<close>
  and \<open>false\<close>.
\<close>

theorem default_styles_lack_attribute_defaults:
  "syntax_init = [] \<and>
   map_of (build_default_syntax mx cs) ''comment'' =
     Some (JObj [(''color'', JStr (neutral (ramps cs) 0.71))]) \<and>
   attr (build_default_syntax mx cs) ''comment'' ''weight'' = None \<and>
   attr (build_default_syntax mx cs) ''comment'' ''underline'' = None \<and>
   attr (build_default_syntax mx cs) ''comment'' ''italic'' = None \<and>
   attr (build_default_syntax mx cs) ''string'' ''weight'' = None \<and>
   attr (build_default_syntax mx cs) ''keyword'' ''weight'' = None"
proof -
  have "attr (build_default_syntax mx cs) ''string'' ''weight'' = None"
    unfolding attr_build_default_syntax default_syntax_props_def
    by (simp cong: last_assigned_cong)
  moreover have "attr (build_default_syntax mx cs) ''keyword'' ''weight'' = None"
    unfolding attr_build_default_syntax default_syntax_props_def
    by (simp cong: last_assigned_cong)
  ultimately show ?thesis
    by (simp add: syntax_init_empty attr_def map_of_default_comment)
qed

text \<open>
  Had the loop stored the defaults, the literal would still drop them: a style that the
  spread object holds under a key of the literal is replaced as a whole.
\<close>

lemma default_syntax_replaces_spread_style:
  "attr (object_literal [(''comment'', JObj default_syntax_highlight_style)]
           (default_syntax_props mx cs)) ''comment'' ''weight'' = None"
  unfolding attr_def map_of_object_literal default_syntax_props_def
  by (simp cong: last_assigned_cong)

subsection \<open>C3: category keys outside \<open>Syntax\<close>\<close>

text \<open>
  As stated, claim C3 fails: the key \<open>foo\<close> is no key of \<open>Syntax\<close> and the default
  profile has no such category, but \<open>merge_syntax\<close> returns a profile with the category
  \<open>foo\<close> of the override \<^verbatim>\<open>{ foo: { color: "#000000" } }\<close>. The key is neither left out
  nor refused.
\<close>

theorem merge_syntax_unknown_key_counterexample:
  "syntax_override unknown_key_scheme = Some [(''foo'', JObj [(''color'', JStr ''#000000'')])] \<and>
   ''foo'' \<notin> set Syntax_keys \<and>
   map_of (build_default_syntax reference_mix unknown_key_scheme) ''foo'' = None \<and>
   map_of (merge_syntax (build_default_syntax reference_mix unknown_key_scheme)
             unknown_key_scheme) ''foo'' =
     Some (JObj [(''color'', JStr ''#000000'')])"
proof -
  have k: "''foo'' \<notin> set Syntax_keys"
    by (simp add: Syntax_keys_def Syntax_required_def Syntax_optional_def)
  have o: "syntax_override unknown_key_scheme =
      Some [(''foo'', JObj [(''color'', JStr ''#000000'')])]"
    by (simp add: unknown_key_scheme_def)
  show ?thesis
    using k o by (simp add: map_of_merge_syntax [OF o] default_unknown_key [OF k])
qed

text \<open>
  Claim C3, amended. \<open>merge_syntax\<close> does not check the keys of the override against
  the keys of \<open>Syntax\<close>: a category of the override whose key is outside the closed set
  of \<open>Syntax\<close> keys is carried into the returned profile with the value the override
  gives it, where the key is not a property name that JavaScript objects inherit and the
  value holds no such name. (What becomes of an inherited name such as \<open>toString\<close> is
  left open: the model of the merge does not cover it.)
\<close>

theorem merge_syntax_carries_unknown_keys:
  assumes "syntax_override cs = Some ov" and "map_of ov k = Some v"
    and "k \<notin> set Syntax_keys"
    and "k \<notin> set Object_prototype_keys" and "own_names_only v"
  shows "map_of (merge_syntax (build_default_syntax mx cs) cs) k = Some v"
  using assms(1-3) by (simp add: map_of_merge_syntax default_unknown_key)

text \<open>The reference scheme with the override \<^verbatim>\<open>{ foo: { color: "#000000" } }\<close>.\<close>

theorem merge_syntax_carries_unknown_keys_witness:
  "syntax_override unknown_key_scheme = Some [(''foo'', JObj [(''color'', JStr ''#000000'')])] \<and>
   map_of [(''foo'', JObj [(''color'', JStr ''#000000'')])] ''foo'' =
     Some (JObj [(''color'', JStr ''#000000'')]) \<and>
   ''foo'' \<notin> set Syntax_keys \<and>
   ''foo'' \<notin> set Object_prototype_keys \<and>
   own_names_only (JObj [(''color'', JStr ''#000000'')]) \<and>
   attr (build_syntax reference_mix unknown_key_scheme) ''foo'' ''color'' =
     Some (JStr ''#000000'')"
proof -
  have k: "''foo'' \<notin> set Syntax_keys"
    by (simp add: Syntax_keys_def Syntax_required_def Syntax_optional_def)
  have i: "''foo'' \<notin> set Object_prototype_keys"
    by (simp add: Object_prototype_keys_def)
  have n: "own_names_only (JObj [(''color'', JStr ''#000000'')])"
    by (simp add: Object_prototype_keys_def)
  have o: "syntax_override unknown_key_scheme =
      Some [(''foo'', JObj [(''color'', JStr ''#000000'')])]"
    by (simp add: unknown_key_scheme_def)
  have m: "map_of [(''foo'', JObj [(''color'', JStr ''#000000'')])] ''foo'' =
     Some (JObj [(''color'', JStr ''#000000'')])"
    by simp
  show ?thesis
    using k i n o m merge_syntax_carries_unknown_keys [OF o m k i n, of reference_mix]
    by (simp add: build_syntax_def attr_def)
qed

subsection \<open>C4: no override\<close>

text \<open>
  Claim C4. For every default profile \<open>P\<close> and every color scheme that carries no override,
  \<open>merge_syntax P scheme\<close> is \<open>P\<close>.
\<close>

theorem merge_syntax_no_override:
  "syntax_override cs = None \<Longrightarrow> merge_syntax P cs = P"
  by (simp add: merge_syntax_def)

theorem merge_syntax_no_override_witness:
  "syntax_override reference_scheme = None \<and>
   merge_syntax list_profile reference_scheme = list_profile \<and>
   build_syntax reference_mix reference_scheme =
     build_default_syntax reference_mix reference_scheme"
proof -
  have n: "syntax_override reference_scheme = None"
    by (simp add: reference_scheme_def)
  show ?thesis
    using n merge_syntax_no_override [OF n, of list_profile]
      merge_syntax_no_override [OF n, of "build_default_syntax reference_mix reference_scheme"]
    by (simp add: build_syntax_def)
qed

subsection \<open>C5: precedence of the override\<close>

text \<open>
  Claim C5. For every default profile \<open>P\<close> and every override: a category \<open>c\<close> that the
  override gives the color \<open>x\<close> has the color \<open>x\<close> in the merged profile, whatever \<open>P\<close>
  holds; an attribute \<open>a\<close> that the override's \<open>c\<close> does not have is in the merged profile
  what it is in \<open>P\<close>; and a category \<open>c'\<close> that the override does not have is in the merged
  profile what it is in \<open>P\<close>.
\<close>

theorem merge_syntax_override_precedence:
  assumes "syntax_override cs = Some ov"
  shows "(map_of ov c = Some (JObj style) \<and> map_of style ''color'' = Some (JStr x) \<longrightarrow>
            attr (merge_syntax P cs) c ''color'' = Some (JStr x)) \<and>
         (map_of ov c = Some (JObj style) \<and> map_of style a = None \<longrightarrow>
            attr (merge_syntax P cs) c a = attr P c a) \<and>
         (map_of ov c' = None \<longrightarrow> map_of (merge_syntax P cs) c' = map_of P c')"
  by (auto simp: attr_def map_of_merge_syntax [OF assms] map_of_mergeObject
      isMergeableObject_def split: option.splits jsval.splits)

theorem merge_syntax_override_precedence_witness:
  "syntax_override red_predictive_scheme =
     Some [(''predictive'', JObj [(''color'', JStr ''#FF0000'')])] \<and>
   attr (build_default_syntax reference_mix red_predictive_scheme) ''predictive'' ''color'' =
     Some (JStr ''#4A64A8'') \<and>
   attr (build_syntax reference_mix red_predictive_scheme) ''predictive'' ''color'' =
     Some (JStr ''#FF0000'') \<and>
   attr (build_syntax reference_mix red_predictive_scheme) ''predictive'' ''italic'' =
     Some (JBool True) \<and>
   map_of (build_syntax reference_mix red_predictive_scheme) ''keyword'' =
     Some (JObj [(''color'', JStr ''#3B82F6'')])"
proof -
  let ?P = "build_default_syntax reference_mix red_predictive_scheme"
  have o: "syntax_override red_predictive_scheme =
      Some [(''predictive'', JObj [(''color'', JStr ''#FF0000'')])]"
    by (simp add: red_predictive_scheme_def)
  have r: "ramps red_predictive_scheme = reference_ramps"
    by (simp add: red_predictive_scheme_def)
  have p: "attr ?P ''predictive'' ''color'' = Some (JStr ''#4A64A8'')"
      "attr ?P ''predictive'' ''italic'' = Some (JBool True)"
    unfolding attr_build_default_syntax default_syntax_props_def
    by (simp_all cong: last_assigned_cong add: color_def predictive_def reference_mix_def)
  have k: "map_of ?P ''keyword'' = Some (JObj [(''color'', JStr ''#3B82F6'')])"
    unfolding map_of_build_default_syntax default_syntax_props_def
    by (simp cong: last_assigned_cong add: color_def r reference_ramps_def)
  show ?thesis
    using o p k
      merge_syntax_override_precedence [OF o,
        where c = "''predictive''" and style = "[(''color'', JStr ''#FF0000'')]"
          and x = "''#FF0000''" and a = "''italic''" and c' = "''keyword''" and P = ?P]
    by (simp add: build_syntax_def)
qed

subsection \<open>C6: the sampled palette\<close>

text \<open>
  Claim C6. For every color scheme the default profile takes primary, variable, preproc
  and embedded from neutral at 1; comment and comment.doc from neutral at 0.71; the
  punctuation categories from neutral at 0.86; constructor, variant, property, tag,
  attribute, label and keyword from blue at 0.5; enum, operator, string, string.special and
  text.literal from orange at 0.5; number, boolean and constant from green at 0.5; function
  from yellow at 0.5; type from cyan at 0.5. So where neutral at 1 is \<open>#FFFFFF\<close> and blue
  at 0.5 is \<open>#3B82F6\<close>, primary has the color \<open>#FFFFFF\<close> and keyword the color
  \<open>#3B82F6\<close>.
\<close>

theorem default_palette_sampling:
  "color_primary (color mx cs) = neutral (ramps cs) 1 \<and>
   color_comment (color mx cs) = neutral (ramps cs) 0.71 \<and>
   color_punctuation (color mx cs) = neutral (ramps cs) 0.86 \<and>
   attr (build_default_syntax mx cs) ''primary'' ''color'' = Some (JStr (neutral (ramps cs) 1)) \<and>
   attr (build_default_syntax mx cs) ''variable'' ''color'' = Some (JStr (neutral (ramps cs) 1)) \<and>
   attr (build_default_syntax mx cs) ''preproc'' ''color'' = Some (JStr (neutral (ramps cs) 1)) \<and>
   attr (build_default_syntax mx cs) ''embedded'' ''color'' = Some (JStr (neutral (ramps cs) 1)) \<and>
   attr (build_default_syntax mx cs) ''comment'' ''color'' = Some (JStr (neutral (ramps cs) 0.71)) \<and>
   attr (build_default_syntax mx cs) ''comment.doc'' ''color'' = Some (JStr (neutral (ramps cs) 0.71)) \<and>
   attr (build_default_syntax mx cs) ''punctuation'' ''color'' = Some (JStr (neutral (ramps cs) 0.86)) \<and>
   attr (build_default_syntax mx cs) ''punctuation.bracket'' ''color'' = Some (JStr (neutral (ramps cs) 0.86)) \<and>
   attr (build_default_syntax mx cs) ''punctuation.delimiter'' ''color'' = Some (JStr (neutral (ramps cs) 0.86)) \<and>
   attr (build_default_syntax mx cs) ''punctuation.special'' ''color'' = Some (JStr (neutral (ramps cs) 0.86)) \<and>
   attr (build_default_syntax mx cs) ''punctuation.list_marker'' ''color'' = Some (JStr (neutral (ramps cs) 0.86)) \<and>
   attr (build_default_syntax mx cs) ''constructor'' ''color'' = Some (JStr (blue (ramps cs) 0.5)) \<and>
   attr (build_default_syntax mx cs) ''variant'' ''color'' = Some (JStr (blue (ramps cs) 0.5)) \<and>
   attr (build_default_syntax mx cs) ''property'' ''color'' = Some (JStr (blue (ramps cs) 0.5)) \<and>
   attr (build_default_syntax mx cs) ''tag'' ''color'' = Some (JStr (blue (ramps cs) 0.5)) \<and>
   attr (build_default_syntax mx cs) ''attribute'' ''color'' = Some (JStr (blue (ramps cs) 0.5)) \<and>
   attr (build_default_syntax mx cs) ''label'' ''color'' = Some (JStr (blue (ramps cs) 0.5)) \<and>
   attr (build_default_syntax mx cs) ''keyword'' ''color'' = Some (JStr (blue (ramps cs) 0.5)) \<and>
   attr (build_default_syntax mx cs) ''enum'' ''color'' = Some (JStr (orange (ramps cs) 0.5)) \<and>
   attr (build_default_syntax mx cs) ''operator'' ''color'' = Some (JStr (orange (ramps cs) 0.5)) \<and>
   attr (build_default_syntax mx cs) ''string'' ''color'' = Some (JStr (orange (ramps cs) 0.5)) \<and>
   attr (build_default_syntax mx cs) ''string.special'' ''color'' = Some (JStr (orange (ramps cs) 0.5)) \<and>
   attr (build_default_syntax mx cs) ''text.literal'' ''color'' = Some (JStr (orange (ramps cs) 0.5)) \<and>
   attr (build_default_syntax mx cs) ''number'' ''color'' = Some (JStr (green (ramps cs) 0.5)) \<and>
   attr (build_default_syntax mx cs) ''boolean'' ''color'' = Some (JStr (green (ramps cs) 0.5)) \<and>
   attr (build_default_syntax mx cs) ''constant'' ''color'' = Some (JStr (green (ramps cs) 0.5)) \<and>
   attr (build_default_syntax mx cs) ''function'' ''color'' = Some (JStr (yellow (ramps cs) 0.5)) \<and>
   attr (build_default_syntax mx cs) ''type'' ''color'' = Some (JStr (cyan (ramps cs) 0.5)) \<and>
   (neutral (ramps cs) 1 = ''#FFFFFF'' \<and> blue (ramps cs) 0.5 = ''#3B82F6'' \<longrightarrow>
      attr (build_default_syntax mx cs) ''primary'' ''color'' = Some (JStr ''#FFFFFF'') \<and>
      attr (build_default_syntax mx cs) ''keyword'' ''color'' = Some (JStr ''#3B82F6''))"
  unfolding attr_build_default_syntax default_syntax_props_def
  by (simp cong: last_assigned_cong add: color_def)

theorem default_palette_sampling_witness:
  "neutral (ramps reference_scheme) 1 = ''#FFFFFF'' \<and>
   blue (ramps reference_scheme) 0.5 = ''#3B82F6'' \<and>
   attr (build_default_syntax reference_mix reference_scheme) ''primary'' ''color'' =
     Some (JStr ''#FFFFFF'') \<and>
   attr (build_default_syntax reference_mix reference_scheme) ''keyword'' ''color'' =
     Some (JStr ''#3B82F6'')"
  using default_palette_sampling [of reference_mix reference_scheme]
  by (simp add: reference_scheme_def reference_ramps_def)

subsection \<open>C8: flags of the default profile\<close>

text \<open>
  Claim C8. For every color scheme, in the default profile: predictive is italic;
  emphasis.strong and title have the weight bold; link_uri is underlined and has the color
  of green at 0.5; link_text is italic and has the color of orange at 0.5; string.escape has
  the color of comment.
\<close>

theorem default_profile_flags:
  "attr (build_default_syntax mx cs) ''predictive'' ''italic'' = Some (JBool True) \<and>
   attr (build_default_syntax mx cs) ''emphasis.strong'' ''weight'' = Some font_weights_bold \<and>
   attr (build_default_syntax mx cs) ''title'' ''weight'' = Some font_weights_bold \<and>
   attr (build_default_syntax mx cs) ''link_uri'' ''underline'' = Some (JBool True) \<and>
   attr (build_default_syntax mx cs) ''link_uri'' ''color'' = Some (JStr (green (ramps cs) 0.5)) \<and>
   attr (build_default_syntax mx cs) ''link_text'' ''italic'' = Some (JBool True) \<and>
   attr (build_default_syntax mx cs) ''link_text'' ''color'' = Some (JStr (orange (ramps cs) 0.5)) \<and>
   attr (build_default_syntax mx cs) ''comment'' ''color'' = Some (JStr (neutral (ramps cs) 0.71)) \<and>
   attr (build_default_syntax mx cs) ''string.escape'' ''color'' =
     attr (build_default_syntax mx cs) ''comment'' ''color''"
  unfolding attr_build_default_syntax default_syntax_props_def
  by (simp cong: last_assigned_cong add: color_def)

subsection \<open>C9: list-valued attributes\<close>

text \<open>
  Claim C9. For every default profile and override in which an attribute of a category is
  a list on both sides, the merged attribute is the list of the default's elements followed
  by the override's elements.
\<close>

theorem merge_syntax_concatenates_arrays:
  assumes "syntax_override cs = Some ov"
    and "attr P c a = Some (JArr xs)"
    and "attr ov c a = Some (JArr ys)"
  shows "attr (merge_syntax P cs) c a = Some (JArr (xs @ ys))"
  using assms(2,3)
  by (auto simp: attr_def map_of_merge_syntax [OF assms(1)] map_of_mergeObject
      isMergeableObject_def arrayMerge_def split: option.splits jsval.splits)

theorem merge_syntax_concatenates_arrays_witness:
  "syntax_override list_scheme =
     Some [(''comment'', JObj [(''features'', JArr [JStr ''b'', JStr ''c''])])] \<and>
   attr list_profile ''comment'' ''features'' = Some (JArr [JStr ''a'']) \<and>
   attr [(''comment'', JObj [(''features'', JArr [JStr ''b'', JStr ''c''])])]
     ''comment'' ''features'' = Some (JArr [JStr ''b'', JStr ''c'']) \<and>
   attr (merge_syntax list_profile list_scheme) ''comment'' ''features'' =
     Some (JArr [JStr ''a'', JStr ''b'', JStr ''c''])"
proof -
  have o: "syntax_override list_scheme =
      Some [(''comment'', JObj [(''features'', JArr [JStr ''b'', JStr ''c''])])]"
    by (simp add: list_scheme_def)
  have d: "attr list_profile ''comment'' ''features'' = Some (JArr [JStr ''a''])"
    by (simp add: attr_def list_profile_def)
  have s: "attr [(''comment'', JObj [(''features'', JArr [JStr ''b'', JStr ''c''])])]
     ''comment'' ''features'' = Some (JArr [JStr ''b'', JStr ''c''])"
    by (simp add: attr_def)
  show ?thesis
    using o d s merge_syntax_concatenates_arrays [OF o d s] by simp
qed

subsection \<open>C10: optional categories\<close>

text \<open>
  Claim C10. For every color scheme the optional categories function.definition,
  function.method, function.builtin, function.special.definition, function.method.builtin,
  constant.builtin, type.builtin and variable.special are absent from the default profile,
  and each is in the profile returned by \<open>build_syntax\<close> if and only if the override of
  the scheme supplies it.
\<close>

theorem optional_categories_only_from_override:
  "\<forall>k \<in> set optional_without_default.
     map_of (build_default_syntax mx cs) k = None \<and>
     (map_of (build_syntax mx cs) k \<noteq> None \<longleftrightarrow> override_supplies cs k)"
proof
  fix k assume k: "k \<in> set optional_without_default"
  have d: "map_of (build_default_syntax mx cs) k = None"
    using k by (rule default_optional_absent)
  have "map_of (build_syntax mx cs) k \<noteq> None \<longleftrightarrow> override_supplies cs k"
  proof (cases "syntax_override cs")
    case None
    with d show ?thesis
      by (simp add: build_syntax_def merge_syntax_def override_supplies_def)
  next
    case (Some ov)
    with d show ?thesis
      by (simp add: build_syntax_def map_of_merge_syntax [OF Some] override_supplies_def
          Object_keys_iff split: option.splits)
  qed
  with d show "map_of (build_default_syntax mx cs) k = None \<and>
     (map_of (build_syntax mx cs) k \<noteq> None \<longleftrightarrow> override_supplies cs k)"
    by simp
qed

theorem optional_categories_only_from_override_witness:
  "''function.method'' \<in> set optional_without_default \<and>
   ''function.builtin'' \<in> set optional_without_default \<and>
   override_supplies method_scheme ''function.method'' \<and>
   \<not> override_supplies method_scheme ''function.builtin'' \<and>
   map_of (build_default_syntax reference_mix method_scheme) ''function.method'' = None \<and>
   map_of (build_syntax reference_mix method_scheme) ''function.method'' \<noteq> None \<and>
   map_of (build_syntax reference_mix method_scheme) ''function.builtin'' = None"
proof -
  have m: "''function.method'' \<in> set optional_without_default"
    and b: "''function.builtin'' \<in> set optional_without_default"
    by (simp_all add: optional_without_default_def)
  have s: "override_supplies method_scheme ''function.method''"
    "\<not> override_supplies method_scheme ''function.builtin''"
    by (simp_all add: override_supplies_def method_scheme_def Object_keys_def)
  show ?thesis
    using m b s
      optional_categories_only_from_override [of reference_mix method_scheme, rule_format, OF m]
      optional_categories_only_from_override [of reference_mix method_scheme, rule_format, OF b]
    by simp
qed

end
